theory Spec2Isabelle
  imports Main
begin

section \<open>Python values, exceptions and the log\<close>

text \<open>
  The values that flow through \<^verbatim>\<open>DBHelper.py\<close>: \<^verbatim>\<open>None\<close>, booleans, the integers
  of \<^verbatim>\<open>COUNT(*)\<close>, the strings of the VARCHAR/TEXT columns, the tuples that
  \<^verbatim>\<open>fetchone\<close> returns and the lists that \<^verbatim>\<open>fetchall\<close> and the pair helpers return.
\<close>

datatype pyval =
    PNone
  | PBool bool
  | PInt int
  | PStr string
  | PTuple "pyval list"
  | PList "pyval list"

text \<open>
  The two exception classes the handlers of \<^verbatim>\<open>execute_query\<close> tell apart:
  \<^verbatim>\<open>mysql.connector.Error\<close> (with its subclasses) and any other \<^verbatim>\<open>Exception\<close>.
\<close>

datatype exn = MySQLError string | PyException string

datatype level = DEBUG | INFO | ERROR

datatype logarg = AExn exn | AVal pyval | AStr string | ANoArg

text \<open>
  A log record: level, format string, and the argument substituted for \<^verbatim>\<open>%s\<close>
  (\<open>ANoArg\<close> when the format has none).
\<close>

type_synonym logrec = "level \<times> string \<times> logarg"

text \<open>Python truthiness (\<^verbatim>\<open>bool(x)\<close>, \<^verbatim>\<open>x and y\<close>, \<^verbatim>\<open>x or y\<close>, \<^verbatim>\<open>if x\<close>).\<close>

fun truthy :: "pyval \<Rightarrow> bool" where
  "truthy PNone = False"
| "truthy (PBool b) = b"
| "truthy (PInt i) = (i \<noteq> 0)"
| "truthy (PStr s) = (s \<noteq> [])"
| "truthy (PTuple xs) = (xs \<noteq> [])"
| "truthy (PList xs) = (xs \<noteq> [])"

text \<open>\<^verbatim>\<open>isinstance(x, tuple)\<close>.\<close>

fun is_tuple :: "pyval \<Rightarrow> bool" where
  "is_tuple (PTuple xs) = True"
| "is_tuple v = False"

text \<open>
  \<^verbatim>\<open>x[0]\<close>: the first element of a tuple or list, \<^verbatim>\<open>IndexError\<close> when it is empty,
  the first character of a string, \<^verbatim>\<open>TypeError\<close> for a value that is not subscriptable.
\<close>

fun subscript0 :: "pyval \<Rightarrow> exn + pyval" where
  "subscript0 (PTuple []) = Inl (PyException ''IndexError: tuple index out of range'')"
| "subscript0 (PTuple (x # xs)) = Inr x"
| "subscript0 (PList []) = Inl (PyException ''IndexError: list index out of range'')"
| "subscript0 (PList (x # xs)) = Inr x"
| "subscript0 (PStr []) = Inl (PyException ''IndexError: string index out of range'')"
| "subscript0 (PStr (c # cs)) = Inr (PStr [c])"
| "subscript0 v = Inl (PyException ''TypeError: object is not subscriptable'')"

section \<open>The database and the driver\<close>

text \<open>
  The three tables of \<^verbatim>\<open>init_db\<close>. A table that has not been created is \<open>None\<close>;
  rows are kept in insertion order.
\<close>

record database =
  users :: "(string \<times> string \<times> string) list option"
  traped :: "(string \<times> string \<times> string \<times> string) list option"
  message :: "(string \<times> string \<times> string \<times> string) list option"

text \<open>
  What the server answers to a statement: the error it reports, or the database after
  the statement, the result set (\<open>None\<close> when the statement has none) and whether
  the statement commits implicitly.
\<close>

type_synonym answer = "exn + (database \<times> pyval list option \<times> bool)"

text \<open>
  The world outside the module: the committed database, the number of connections
  the pool can still hand out (\<^verbatim>\<open>pool_size=4\<close> at start), \<^verbatim>\<open>app.log\<close>, and the
  server's answer to any SQL text that is not one of the module's own statements
  (\<^verbatim>\<open>execute_query\<close> accepts every text; what the server does with a foreign one is
  left open).
\<close>

record world =
  db :: database
  avail :: nat
  logged :: "logrec list"
  server :: "string \<Rightarrow> string list \<Rightarrow> database \<Rightarrow> answer"

definition logging :: "level \<Rightarrow> string \<Rightarrow> logarg \<Rightarrow> world \<Rightarrow> world" where
  "logging l fmt a w = w\<lparr>logged := logged w @ [(l, fmt, a)]\<rparr>"

text \<open>
  Every call into \<^verbatim>\<open>mysql.connector\<close> may raise (server gone, network, \<dots>). Which
  calls do so during one \<^verbatim>\<open>execute_query\<close> is given by an environment: for each
  driver operation, the exception it raises, if any.
\<close>

datatype op = OpGetConnection | OpCursor | OpExecute | OpCommit | OpFetch
  | OpCursorClose | OpConnClose

type_synonym env = "op \<Rightarrow> exn option"

definition no_faults :: env where
  "no_faults = (\<lambda>_. None)"

text \<open>
  A pooled connection carries the database as its transaction sees it; a cursor
  carries the rows of its result set that have not been fetched and whether the
  driver still has a result to read.
\<close>

record connection =
  txn :: database

record cursor =
  rows :: "pyval list"
  unread :: bool

section \<open>The statements of the module\<close>

text \<open>
  The SQL texts that \<^verbatim>\<open>DBHelper.py\<close> sends, in the order of the file. The three
  \<^verbatim>\<open>CREATE TABLE\<close> texts span several lines in the source; their layout whitespace is
  written as single blanks here.
\<close>

definition sql_create_users :: string where
  "sql_create_users = ''CREATE TABLE IF NOT EXISTS USERS ( UID VARCHAR(255) PRIMARY KEY, EMAIL VARCHAR(255) NOT NULL, PASSWORD VARCHAR(255) NOT NULL )''"

definition sql_create_traped :: string where
  "sql_create_traped = ''CREATE TABLE IF NOT EXISTS TRAPED ( OWNER VARCHAR(255) NOT NULL, APP VARCHAR(255) NOT NULL, UID VARCHAR(255) NOT NULL, PASSWORD VARCHAR(255) NOT NULL )''"

definition sql_create_message :: string where
  "sql_create_message = ''CREATE TABLE IF NOT EXISTS MESSAGE ( UID VARCHAR(255) NOT NULL, NAME VARCHAR(255) NOT NULL, EMAIL VARCHAR(255) NOT NULL, MSG TEXT NOT NULL )''"

definition sql_user_exists :: string where
  "sql_user_exists = ''SELECT 1 FROM USERS WHERE UID=%s''"

definition sql_insert_user :: string where
  "sql_insert_user = ''INSERT INTO USERS (UID, EMAIL, PASSWORD) VALUES (%s, %s, %s)''"

definition sql_user_password :: string where
  "sql_user_password = ''SELECT PASSWORD FROM USERS WHERE UID=%s''"

definition sql_insert_traped :: string where
  "sql_insert_traped = ''INSERT INTO TRAPED (OWNER, APP, UID, PASSWORD) VALUES (%s, %s, %s, %s)''"

definition sql_traped_of_owner :: string where
  "sql_traped_of_owner = ''SELECT OWNER, APP, UID, PASSWORD FROM TRAPED WHERE OWNER=%s''"

definition sql_count_traped_of_owner :: string where
  "sql_count_traped_of_owner = ''SELECT COUNT(*) FROM TRAPED WHERE OWNER=%s''"

definition sql_traped :: string where
  "sql_traped = ''SELECT OWNER, APP, UID, PASSWORD FROM TRAPED''"

definition sql_count_traped :: string where
  "sql_count_traped = ''SELECT COUNT(*) FROM TRAPED''"

definition sql_users :: string where
  "sql_users = ''SELECT UID, EMAIL, PASSWORD FROM USERS''"

definition sql_count_users :: string where
  "sql_count_users = ''SELECT COUNT(*) FROM USERS''"

definition sql_insert_message :: string where
  "sql_insert_message = ''INSERT INTO MESSAGE (UID, NAME, EMAIL, MSG) VALUES (%s, %s, %s, %s)''"

definition sql_message :: string where
  "sql_message = ''SELECT UID, NAME, EMAIL, MSG FROM MESSAGE''"

definition sql_count_message :: string where
  "sql_count_message = ''SELECT COUNT(*) FROM MESSAGE''"

text \<open>
  \<open>parse_sql\<close> recognises the module's own statements by their text. Any other text
  is \<open>None\<close> here and is answered by the world's \<open>server\<close>.
\<close>

datatype stmt =
    CreateUsers | CreateTraped | CreateMessage
  | UserExists | InsertUser | UserPassword
  | InsertTraped | TrapedOfOwner | CountTrapedOfOwner | AllTraped | CountTraped
  | AllUsers | CountUsers
  | InsertMessage | AllMessage | CountMessage

definition parse_sql :: "string \<Rightarrow> stmt option" where
  "parse_sql q =
     (if q = sql_create_users then Some CreateUsers
      else if q = sql_create_traped then Some CreateTraped
      else if q = sql_create_message then Some CreateMessage
      else if q = sql_user_exists then Some UserExists
      else if q = sql_insert_user then Some InsertUser
      else if q = sql_user_password then Some UserPassword
      else if q = sql_insert_traped then Some InsertTraped
      else if q = sql_traped_of_owner then Some TrapedOfOwner
      else if q = sql_count_traped_of_owner then Some CountTrapedOfOwner
      else if q = sql_traped then Some AllTraped
      else if q = sql_count_traped then Some CountTraped
      else if q = sql_users then Some AllUsers
      else if q = sql_count_users then Some CountUsers
      else if q = sql_insert_message then Some InsertMessage
      else if q = sql_message then Some AllMessage
      else if q = sql_count_message then Some CountMessage
      else None)"

text \<open>
  The server's side of the module's own statements, on the database as the transaction
  sees it: the database after the statement and its result set (\<open>None\<close> when the
  statement has none), or the error the server reports. String comparison is exact; a
  VARCHAR(255) value longer than 255 and a TEXT value longer than 65535 are refused
  (strict SQL mode); \<^verbatim>\<open>UID\<close> is the primary key of \<^verbatim>\<open>USERS\<close>. A statement sent with
  the wrong number of parameters is refused by the driver.
\<close>

definition no_table :: "string \<Rightarrow> exn" where
  "no_table t = MySQLError (''1146 (42S02): Table '' @ t @ '' does not exist'')"

definition too_long :: exn where
  "too_long = MySQLError ''1406 (22001): Data too long for column''"

definition duplicate_key :: exn where
  "duplicate_key = MySQLError ''1062 (23000): Duplicate entry for key PRIMARY''"

definition bad_params :: exn where
  "bad_params = MySQLError ''Wrong number of parameters for the SQL statement''"

definition syntax_error :: exn where
  "syntax_error = MySQLError ''1064 (42000): You have an error in your SQL syntax''"

definition user_row :: "string \<times> string \<times> string \<Rightarrow> pyval" where
  "user_row r = (case r of (u, e, p) \<Rightarrow> PTuple [PStr u, PStr e, PStr p])"

definition row4 :: "string \<times> string \<times> string \<times> string \<Rightarrow> pyval" where
  "row4 r = (case r of (a, b, c, d) \<Rightarrow> PTuple [PStr a, PStr b, PStr c, PStr d])"

definition count_row :: "'a list \<Rightarrow> pyval" where
  "count_row t = PTuple [PInt (int (length t))]"

definition fits :: "string list \<Rightarrow> bool" where
  "fits vs = list_all (\<lambda>v. length v \<le> 255) vs"

definition run_stmt :: "stmt \<Rightarrow> string list \<Rightarrow> database \<Rightarrow> exn + (database \<times> pyval list option)" where
  "run_stmt s ps d =
     (case s of
        CreateUsers \<Rightarrow>
          (case ps of [] \<Rightarrow>
            Inr (d\<lparr>users := Some (case users d of None \<Rightarrow> [] | Some t \<Rightarrow> t)\<rparr>, None)
           | _ \<Rightarrow> Inl bad_params)
      | CreateTraped \<Rightarrow>
          (case ps of [] \<Rightarrow>
            Inr (d\<lparr>traped := Some (case traped d of None \<Rightarrow> [] | Some t \<Rightarrow> t)\<rparr>, None)
           | _ \<Rightarrow> Inl bad_params)
      | CreateMessage \<Rightarrow>
          (case ps of [] \<Rightarrow>
            Inr (d\<lparr>message := Some (case message d of None \<Rightarrow> [] | Some t \<Rightarrow> t)\<rparr>, None)
           | _ \<Rightarrow> Inl bad_params)
      | UserExists \<Rightarrow>
          (case ps of [uid] \<Rightarrow>
            (case users d of None \<Rightarrow> Inl (no_table ''USERS'')
             | Some t \<Rightarrow> Inr (d, Some (map (\<lambda>r. PTuple [PInt 1]) (filter (\<lambda>r. fst r = uid) t))))
           | _ \<Rightarrow> Inl bad_params)
      | InsertUser \<Rightarrow>
          (case ps of [uid, email, pas] \<Rightarrow>
            (case users d of None \<Rightarrow> Inl (no_table ''USERS'')
             | Some t \<Rightarrow>
                 if \<not> fits [uid, email, pas] then Inl too_long
                 else if uid \<in> set (map fst t) then Inl duplicate_key
                 else Inr (d\<lparr>users := Some (t @ [(uid, email, pas)])\<rparr>, None))
           | _ \<Rightarrow> Inl bad_params)
      | UserPassword \<Rightarrow>
          (case ps of [uid] \<Rightarrow>
            (case users d of None \<Rightarrow> Inl (no_table ''USERS'')
             | Some t \<Rightarrow>
                 Inr (d, Some (map (\<lambda>r. PTuple [PStr (snd (snd r))]) (filter (\<lambda>r. fst r = uid) t))))
           | _ \<Rightarrow> Inl bad_params)
      | InsertTraped \<Rightarrow>
          (case ps of [owner, site, uid, pas] \<Rightarrow>
            (case traped d of None \<Rightarrow> Inl (no_table ''TRAPED'')
             | Some t \<Rightarrow>
                 if \<not> fits [owner, site, uid, pas] then Inl too_long
                 else Inr (d\<lparr>traped := Some (t @ [(owner, site, uid, pas)])\<rparr>, None))
           | _ \<Rightarrow> Inl bad_params)
      | TrapedOfOwner \<Rightarrow>
          (case ps of [uid] \<Rightarrow>
            (case traped d of None \<Rightarrow> Inl (no_table ''TRAPED'')
             | Some t \<Rightarrow> Inr (d, Some (map row4 (filter (\<lambda>r. fst r = uid) t))))
           | _ \<Rightarrow> Inl bad_params)
      | CountTrapedOfOwner \<Rightarrow>
          (case ps of [uid] \<Rightarrow>
            (case traped d of None \<Rightarrow> Inl (no_table ''TRAPED'')
             | Some t \<Rightarrow> Inr (d, Some [count_row (filter (\<lambda>r. fst r = uid) t)]))
           | _ \<Rightarrow> Inl bad_params)
      | AllTraped \<Rightarrow>
          (case ps of [] \<Rightarrow>
            (case traped d of None \<Rightarrow> Inl (no_table ''TRAPED'')
             | Some t \<Rightarrow> Inr (d, Some (map row4 t)))
           | _ \<Rightarrow> Inl bad_params)
      | CountTraped \<Rightarrow>
          (case ps of [] \<Rightarrow>
            (case traped d of None \<Rightarrow> Inl (no_table ''TRAPED'')
             | Some t \<Rightarrow> Inr (d, Some [count_row t]))
           | _ \<Rightarrow> Inl bad_params)
      | AllUsers \<Rightarrow>
          (case ps of [] \<Rightarrow>
            (case users d of None \<Rightarrow> Inl (no_table ''USERS'')
             | Some t \<Rightarrow> Inr (d, Some (map user_row t)))
           | _ \<Rightarrow> Inl bad_params)
      | CountUsers \<Rightarrow>
          (case ps of [] \<Rightarrow>
            (case users d of None \<Rightarrow> Inl (no_table ''USERS'')
             | Some t \<Rightarrow> Inr (d, Some [count_row t]))
           | _ \<Rightarrow> Inl bad_params)
      | InsertMessage \<Rightarrow>
          (case ps of [uid, name, email, msg] \<Rightarrow>
            (case message d of None \<Rightarrow> Inl (no_table ''MESSAGE'')
             | Some t \<Rightarrow>
                 if \<not> fits [uid, name, email] \<or> 65535 < length msg then Inl too_long
                 else Inr (d\<lparr>message := Some (t @ [(uid, name, email, msg)])\<rparr>, None))
           | _ \<Rightarrow> Inl bad_params)
      | AllMessage \<Rightarrow>
          (case ps of [] \<Rightarrow>
            (case message d of None \<Rightarrow> Inl (no_table ''MESSAGE'')
             | Some t \<Rightarrow> Inr (d, Some (map row4 t)))
           | _ \<Rightarrow> Inl bad_params)
      | CountMessage \<Rightarrow>
          (case ps of [] \<Rightarrow>
            (case message d of None \<Rightarrow> Inl (no_table ''MESSAGE'')
             | Some t \<Rightarrow> Inr (d, Some [count_row t]))
           | _ \<Rightarrow> Inl bad_params)
     )"

text \<open>\<^verbatim>\<open>CREATE TABLE\<close> commits implicitly.\<close>

definition is_ddl :: "stmt \<Rightarrow> bool" where
  "is_ddl s = (s = CreateUsers \<or> s = CreateTraped \<or> s = CreateMessage)"

subsection \<open>Driver operations\<close>

text \<open>
  \<^verbatim>\<open>pool.get_connection()\<close>: raises \<^verbatim>\<open>PoolError\<close> (a \<^verbatim>\<open>mysql.connector.Error\<close>) when
  no connection is available; otherwise takes one from the pool. The connection's
  transaction starts from the committed database.
\<close>

definition pool_exhausted :: exn where
  "pool_exhausted = MySQLError ''Failed getting connection; pool exhausted''"

definition pool_get_connection :: "env \<Rightarrow> world \<Rightarrow> (exn + connection) \<times> world" where
  "pool_get_connection env w =
     (case env OpGetConnection of
        Some e \<Rightarrow> (Inl e, w)
      | None \<Rightarrow>
          if avail w = 0 then (Inl pool_exhausted, w)
          else (Inr \<lparr>txn = db w\<rparr>, w\<lparr>avail := avail w - 1\<rparr>))"

text \<open>\<^verbatim>\<open>conn.cursor()\<close>: a fresh cursor with nothing to read.\<close>

definition conn_cursor :: "env \<Rightarrow> connection \<Rightarrow> exn + cursor" where
  "conn_cursor env c =
     (case env OpCursor of
        Some e \<Rightarrow> Inl e
      | None \<Rightarrow> Inr \<lparr>rows = [], unread = False\<rparr>)"

text \<open>
  \<^verbatim>\<open>cursor.execute(query, params)\<close>: the statement runs inside the connection's
  transaction; a result set, if any, waits in the cursor. A \<^verbatim>\<open>CREATE TABLE\<close> is
  committed at once. One of the module's own statements is answered by \<open>run_stmt\<close>,
  any other text by the world's \<open>server\<close>.
\<close>

definition db_execute ::
  "(string \<Rightarrow> string list \<Rightarrow> database \<Rightarrow> answer) \<Rightarrow> string \<Rightarrow> string list \<Rightarrow> database \<Rightarrow> answer" where
  "db_execute srv q ps d =
     (case parse_sql q of
        None \<Rightarrow> srv q ps d
      | Some s \<Rightarrow>
          (case run_stmt s ps d of
             Inl e \<Rightarrow> Inl e
           | Inr (d', rs) \<Rightarrow> Inr (d', rs, is_ddl s)))"

definition cursor_execute ::
  "env \<Rightarrow> string \<Rightarrow> string list \<Rightarrow> connection \<Rightarrow> cursor \<Rightarrow> world
     \<Rightarrow> exn + (connection \<times> cursor \<times> world)" where
  "cursor_execute env q ps c cur w =
     (case env OpExecute of
        Some e \<Rightarrow> Inl e
      | None \<Rightarrow>
          (case db_execute (server w) q ps (txn c) of
             Inl e \<Rightarrow> Inl e
           | Inr (d, rs, ic) \<Rightarrow>
               Inr (c\<lparr>txn := d\<rparr>,
                    (case rs of
                       None \<Rightarrow> cur\<lparr>rows := [], unread := False\<rparr>
                     | Some r \<Rightarrow> cur\<lparr>rows := r, unread := True\<rparr>),
                    (if ic then w\<lparr>db := d\<rparr> else w))))"

text \<open>\<^verbatim>\<open>conn.commit()\<close>: the transaction's database becomes the committed one.\<close>

definition conn_commit :: "env \<Rightarrow> connection \<Rightarrow> world \<Rightarrow> exn + world" where
  "conn_commit env c w =
     (case env OpCommit of
        Some e \<Rightarrow> Inl e
      | None \<Rightarrow> Inr (w\<lparr>db := txn c\<rparr>))"

text \<open>
  \<^verbatim>\<open>cursor.fetchall()\<close>: every row that is left, in order (an empty list when the
  statement had no result set); nothing stays unread.
\<close>

definition cursor_fetchall :: "env \<Rightarrow> cursor \<Rightarrow> exn + (pyval \<times> cursor)" where
  "cursor_fetchall env cur =
     (case env OpFetch of
        Some e \<Rightarrow> Inl e
      | None \<Rightarrow> Inr (PList (rows cur), cur\<lparr>rows := [], unread := False\<rparr>))"

text \<open>
  \<^verbatim>\<open>cursor.fetchone()\<close>: the next row, or \<^verbatim>\<open>None\<close> when there is none. The driver reads
  one row ahead, so the result counts as read exactly when no row is left behind.
\<close>

definition cursor_fetchone :: "env \<Rightarrow> cursor \<Rightarrow> exn + (pyval \<times> cursor)" where
  "cursor_fetchone env cur =
     (case env OpFetch of
        Some e \<Rightarrow> Inl e
      | None \<Rightarrow>
          (case rows cur of
             [] \<Rightarrow> Inr (PNone, cur\<lparr>unread := False\<rparr>)
           | r # rs \<Rightarrow> Inr (r, cur\<lparr>rows := rs, unread := (rs \<noteq> [])\<rparr>)))"

text \<open>
  \<^verbatim>\<open>cursor.close()\<close>: the driver refuses to close a cursor whose result has not been
  read to the end and raises \<^verbatim>\<open>InternalError("Unread result found")\<close>, a
  \<^verbatim>\<open>mysql.connector.Error\<close>.
\<close>

definition unread_result :: exn where
  "unread_result = MySQLError ''Unread result found''"

definition cursor_close :: "env \<Rightarrow> cursor \<Rightarrow> exn + unit" where
  "cursor_close env cur =
     (case env OpCursorClose of
        Some e \<Rightarrow> Inl e
      | None \<Rightarrow> if unread cur then Inl unread_result else Inr ())"

text \<open>
  \<^verbatim>\<open>conn.close()\<close> on a pooled connection: the connection goes back to the pool;
  what its transaction had not committed is lost. The driver resets the session
  first and puts the connection back in a \<^verbatim>\<open>finally\<close> of its own, so the connection
  is back in the pool also when the call raises.
\<close>

definition conn_close :: "env \<Rightarrow> connection \<Rightarrow> world \<Rightarrow> (exn + unit) \<times> world" where
  "conn_close env c w =
     (case env OpConnClose of
        Some e \<Rightarrow> (Inl e, w\<lparr>avail := avail w + 1\<rparr>)
      | None \<Rightarrow> (Inr (), w\<lparr>avail := avail w + 1\<rparr>))"

section \<open>The module\<close>

subsection \<open>\<^verbatim>\<open>get_connection\<close>\<close>

text \<open>
  A \<^verbatim>\<open>mysql.connector.Error\<close> from the pool is logged and raised again; any other
  exception passes through untouched.
\<close>

definition get_connection :: "env \<Rightarrow> world \<Rightarrow> (exn + connection) \<times> world" where
  "get_connection env w =
     (case pool_get_connection env w of
        (Inr c, w1) \<Rightarrow> (Inr c, w1)
      | (Inl (MySQLError m), w1) \<Rightarrow>
          (Inl (MySQLError m),
           logging ERROR ''Failed to get a connection from the pool: %s'' (AExn (MySQLError m)) w1)
      | (Inl (PyException m), w1) \<Rightarrow> (Inl (PyException m), w1))"

subsection \<open>\<^verbatim>\<open>execute_query\<close>\<close>

text \<open>The local variables \<^verbatim>\<open>conn\<close>, \<^verbatim>\<open>cursor\<close> and \<^verbatim>\<open>result\<close>, all \<^verbatim>\<open>None\<close> at first.\<close>

record frame =
  conn :: "connection option"
  cursor :: "cursor option"
  result :: pyval

definition params_or_empty :: "string list option \<Rightarrow> string list" where
  "params_or_empty params = (case params of None \<Rightarrow> [] | Some ps \<Rightarrow> ps)"

text \<open>
  The body of the \<^verbatim>\<open>try\<close>: the exception that left it, if any, the local variables
  as they stood at that moment, and the world.
\<close>

definition execute_query_try ::
  "env \<Rightarrow> string \<Rightarrow> string list option \<Rightarrow> bool \<Rightarrow> bool \<Rightarrow> world
     \<Rightarrow> exn option \<times> frame \<times> world" where
  "execute_query_try env query params fetchall commit w =
     (case get_connection env w of
        (Inl e, w1) \<Rightarrow> (Some e, \<lparr>conn = None, cursor = None, result = PNone\<rparr>, w1)
      | (Inr c, w1) \<Rightarrow>
     (case conn_cursor env c of
        Inl e \<Rightarrow> (Some e, \<lparr>conn = Some c, cursor = None, result = PNone\<rparr>, w1)
      | Inr cur \<Rightarrow>
     (case cursor_execute env query (params_or_empty params) c cur w1 of
        Inl e \<Rightarrow> (Some e, \<lparr>conn = Some c, cursor = Some cur, result = PNone\<rparr>, w1)
      | Inr (c2, cur2, w2) \<Rightarrow>
     (case (if commit then conn_commit env c2 w2 else Inr w2) of
        Inl e \<Rightarrow> (Some e, \<lparr>conn = Some c2, cursor = Some cur2, result = PNone\<rparr>, w2)
      | Inr w3 \<Rightarrow>
     (if fetchall then
        (case cursor_fetchall env cur2 of
           Inl e \<Rightarrow> (Some e, \<lparr>conn = Some c2, cursor = Some cur2, result = PNone\<rparr>, w3)
         | Inr (v, cur3) \<Rightarrow> (None, \<lparr>conn = Some c2, cursor = Some cur3, result = v\<rparr>, w3))
      else
        (case cursor_fetchone env cur2 of
           Inl e \<Rightarrow> (Some e, \<lparr>conn = Some c2, cursor = Some cur2, result = PNone\<rparr>, w3)
         | Inr (v, cur3) \<Rightarrow>
             (None,
              \<lparr>conn = Some c2, cursor = Some cur3,
               result = (if v \<noteq> PNone \<and> \<not> is_tuple v then PTuple [v] else v)\<rparr>,
              w3)))))))"

text \<open>The two \<^verbatim>\<open>except\<close> clauses: both only log.\<close>

definition execute_query_except :: "exn \<Rightarrow> world \<Rightarrow> world" where
  "execute_query_except e w =
     (case e of
        MySQLError m \<Rightarrow> logging ERROR ''MySQL error occurred: %s'' (AExn e) w
      | PyException m \<Rightarrow> logging ERROR ''An unexpected error occurred: %s'' (AExn e) w)"

text \<open>
  The \<^verbatim>\<open>finally\<close> clause: \<^verbatim>\<open>cursor.close()\<close> if there is a cursor, then
  \<^verbatim>\<open>conn.close()\<close> if there is a connection. An exception raised by the first
  leaves the clause before the second is reached.
\<close>

definition execute_query_finally :: "env \<Rightarrow> frame \<Rightarrow> world \<Rightarrow> exn option \<times> world" where
  "execute_query_finally env f w =
     (case (case cursor f of None \<Rightarrow> Inr () | Some cur \<Rightarrow> cursor_close env cur) of
        Inl e \<Rightarrow> (Some e, w)
      | Inr u \<Rightarrow>
          (case conn f of
             None \<Rightarrow> (None, w)
           | Some c \<Rightarrow>
               (case conn_close env c w of
                  (Inl e, w1) \<Rightarrow> (Some e, w1)
                | (Inr u, w1) \<Rightarrow> (None, w1))))"

definition execute_query ::
  "env \<Rightarrow> string \<Rightarrow> string list option \<Rightarrow> bool \<Rightarrow> bool \<Rightarrow> world
     \<Rightarrow> (exn + pyval) \<times> world" where
  "execute_query env query params fetchall commit w =
     (case execute_query_try env query params fetchall commit w of
        (err, f, w1) \<Rightarrow>
          (case execute_query_finally env f
                  (case err of None \<Rightarrow> w1 | Some e \<Rightarrow> execute_query_except e w1) of
             (Some e, w2) \<Rightarrow> (Inl e, w2)
           | (None, w2) \<Rightarrow> (Inr (result f), w2)))"

subsection \<open>\<^verbatim>\<open>init_db\<close>\<close>


subsection \<open>Helpers on \<^verbatim>\<open>USERS\<close>\<close>

definition check_if_user_exists :: "env \<Rightarrow> string \<Rightarrow> world \<Rightarrow> (exn + pyval) \<times> world" where
  "check_if_user_exists env uid w =
     (case execute_query env sql_user_exists (Some [uid]) True False
             (logging DEBUG ''Checking if user exists with UID: %s'' (AStr uid) w) of
        (Inl e, w1) \<Rightarrow> (Inl e, w1)
      | (Inr r, w1) \<Rightarrow> (Inr (PBool (truthy r)), logging DEBUG ''Result: %s'' (AVal r) w1))"

definition insert_into_user ::
  "env \<Rightarrow> string \<Rightarrow> string \<Rightarrow> string \<Rightarrow> world \<Rightarrow> (exn + pyval) \<times> world" where
  "insert_into_user env uid email pas w =
     (case execute_query env sql_insert_user (Some [uid, email, pas]) False True w of
        (Inl e, w1) \<Rightarrow> (Inl e, w1)
      | (Inr r, w1) \<Rightarrow> (Inr PNone, logging INFO ''User added: %s'' (AStr uid) w1))"

text \<open>
  \<^verbatim>\<open>return result and result[0] == pas\<close>: a falsy \<^verbatim>\<open>result\<close> is returned as it is,
  otherwise the outcome of the comparison.
\<close>

definition check_user_credential ::
  "env \<Rightarrow> string \<Rightarrow> string \<Rightarrow> world \<Rightarrow> (exn + pyval) \<times> world" where
  "check_user_credential env uid pas w =
     (case execute_query env sql_user_password (Some [uid]) False False w of
        (Inl e, w1) \<Rightarrow> (Inl e, w1)
      | (Inr r, w1) \<Rightarrow>
          (if \<not> truthy r then (Inr r, w1)
           else (case subscript0 r of
                   Inl e \<Rightarrow> (Inl e, w1)
                 | Inr x \<Rightarrow> (Inr (PBool (x = PStr pas)), w1))))"

subsection \<open>Helpers on \<^verbatim>\<open>TRAPED\<close>\<close>


definition get_traped_data_for_owner ::
  "env \<Rightarrow> env \<Rightarrow> string \<Rightarrow> world \<Rightarrow> (exn + pyval) \<times> world" where
  "get_traped_data_for_owner env1 env2 uid w =
     (case execute_query env1 sql_traped_of_owner (Some [uid]) True False w of
        (Inl e, w1) \<Rightarrow> (Inl e, w1)
      | (Inr detail, w1) \<Rightarrow>
     (case execute_query env2 sql_count_traped_of_owner (Some [uid]) False False w1 of
        (Inl e, w2) \<Rightarrow> (Inl e, w2)
      | (Inr count_result, w2) \<Rightarrow>
          (case (if truthy count_result \<and> is_tuple count_result then subscript0 count_result
                 else Inr (PInt 0)) of
             Inl e \<Rightarrow> (Inl e, w2)
           | Inr count \<Rightarrow> (Inr (PList [detail, count]), w2))))"

text \<open>
  \<^verbatim>\<open>count_result[0] if isinstance(count_result, tuple) else count_result or 0\<close>, the
  expression shared by \<^verbatim>\<open>get_traped_data\<close>, \<^verbatim>\<open>get_user_data\<close> and \<^verbatim>\<open>get_feedback_data\<close>.
\<close>

definition count_or_zero :: "pyval \<Rightarrow> exn + pyval" where
  "count_or_zero count_result =
     (if is_tuple count_result then subscript0 count_result
      else Inr (if truthy count_result then count_result else PInt 0))"

definition get_traped_data :: "env \<Rightarrow> env \<Rightarrow> world \<Rightarrow> (exn + pyval) \<times> world" where
  "get_traped_data env1 env2 w =
     (case execute_query env1 sql_traped None True False w of
        (Inl e, w1) \<Rightarrow> (Inl e, w1)
      | (Inr detail, w1) \<Rightarrow>
     (case execute_query env2 sql_count_traped None False False w1 of
        (Inl e, w2) \<Rightarrow> (Inl e, w2)
      | (Inr count_result, w2) \<Rightarrow>
          (case count_or_zero count_result of
             Inl e \<Rightarrow> (Inl e, w2)
           | Inr n \<Rightarrow> (Inr (PList [detail, n]), w2))))"

subsection \<open>\<^verbatim>\<open>get_user_data\<close> and the helpers on \<^verbatim>\<open>MESSAGE\<close>\<close>

definition get_user_data :: "env \<Rightarrow> env \<Rightarrow> world \<Rightarrow> (exn + pyval) \<times> world" where
  "get_user_data env1 env2 w =
     (case execute_query env1 sql_users None True False w of
        (Inl e, w1) \<Rightarrow> (Inl e, w1)
      | (Inr detail, w1) \<Rightarrow>
     (case execute_query env2 sql_count_users None False False w1 of
        (Inl e, w2) \<Rightarrow> (Inl e, w2)
      | (Inr count_result, w2) \<Rightarrow>
          (case count_or_zero count_result of
             Inl e \<Rightarrow> (Inl e, w2)
           | Inr n \<Rightarrow> (Inr (PList [detail, n]), w2))))"


definition get_feedback_data :: "env \<Rightarrow> env \<Rightarrow> world \<Rightarrow> (exn + pyval) \<times> world" where
  "get_feedback_data env1 env2 w =
     (case execute_query env1 sql_message None True False w of
        (Inl e, w1) \<Rightarrow> (Inl e, w1)
      | (Inr detail, w1) \<Rightarrow>
     (case execute_query env2 sql_count_message None False False w1 of
        (Inl e, w2) \<Rightarrow> (Inl e, w2)
      | (Inr count_result, w2) \<Rightarrow>
          (case count_or_zero count_result of
             Inl e \<Rightarrow> (Inl e, w2)
           | Inr n \<Rightarrow> (Inr (PList [detail, n]), w2))))"

section \<open>Example states\<close>

text \<open>A server that refuses every statement that is not one of the module's own.\<close>

definition refuses :: "string \<Rightarrow> string list \<Rightarrow> database \<Rightarrow> answer" where
  "refuses q ps d = Inl syntax_error"


text \<open>Two registered users, nothing trapped, no feedback, the whole pool free.\<close>

definition two_users_world :: world where
  "two_users_world =
     \<lparr>db = \<lparr>users = Some [(''u1'', ''a@b.com'', ''pw1''), (''u2'', ''c@d.com'', ''pw2'')],
             traped = Some [], message = Some []\<rparr>,
      avail = 4, logged = [], server = refuses\<rparr>"


text \<open>An environment in which the server cannot be reached: the pool raises on every acquisition.\<close>

definition db_down :: env where
  "db_down = no_faults(OpGetConnection := Some (MySQLError ''2003: Cannot connect to MySQL server''))"

text \<open>The rows of \<^verbatim>\<open>USERS\<close>; none when the table has not been created.\<close>

definition users_rows :: "database \<Rightarrow> (string \<times> string \<times> string) list" where
  "users_rows d = (case users d of None \<Rightarrow> [] | Some t \<Rightarrow> t)"



section \<open>Properties of the driver model\<close>

lemmas sql_defs = sql_create_users_def sql_create_traped_def sql_create_message_def
  sql_user_exists_def sql_insert_user_def sql_user_password_def sql_insert_traped_def
  sql_traped_of_owner_def sql_count_traped_of_owner_def sql_traped_def sql_count_traped_def
  sql_users_def sql_count_users_def sql_insert_message_def sql_message_def sql_count_message_def

lemma parse_sql_simps:
  "parse_sql sql_create_users = Some CreateUsers"
  "parse_sql sql_create_traped = Some CreateTraped"
  "parse_sql sql_create_message = Some CreateMessage"
  "parse_sql sql_user_exists = Some UserExists"
  "parse_sql sql_insert_user = Some InsertUser"
  "parse_sql sql_user_password = Some UserPassword"
  "parse_sql sql_insert_traped = Some InsertTraped"
  "parse_sql sql_traped_of_owner = Some TrapedOfOwner"
  "parse_sql sql_count_traped_of_owner = Some CountTrapedOfOwner"
  "parse_sql sql_traped = Some AllTraped"
  "parse_sql sql_count_traped = Some CountTraped"
  "parse_sql sql_users = Some AllUsers"
  "parse_sql sql_count_users = Some CountUsers"
  "parse_sql sql_insert_message = Some InsertMessage"
  "parse_sql sql_message = Some AllMessage"
  "parse_sql sql_count_message = Some CountMessage"
  by (simp_all add: parse_sql_def sql_defs)

lemmas driver_defs = pool_get_connection_def conn_cursor_def cursor_execute_def conn_commit_def
  cursor_fetchall_def cursor_fetchone_def cursor_close_def conn_close_def

section \<open>Properties of \<^verbatim>\<open>execute_query\<close>\<close>


text \<open>
  When no connection could be acquired there is nothing to close: the error is logged
  and \<^verbatim>\<open>None\<close> is returned.
\<close>

lemma execute_query_get_connection_fails:
  assumes "get_connection env w = (Inl e, w1)"
  shows "execute_query env q params fetchall commit w = (Inr PNone, execute_query_except e w1)"
  using assms by (simp add: execute_query_def execute_query_try_def execute_query_finally_def)

text \<open>
  Runs in which the driver raises nothing of its own accord, on a pool that has a
  connection left and a statement that the server accepts.
\<close>

lemma execute_query_fetchall_ok:
  assumes "0 < avail w" and "db_execute (server w) q (params_or_empty params) (db w) = Inr (d, rs, ic)"
  shows "execute_query no_faults q params True commit w
           = (Inr (PList (case rs of None \<Rightarrow> [] | Some r \<Rightarrow> r)),
              if commit \<or> ic then w\<lparr>db := d\<rparr> else w)"
  using assms
  by (cases rs) (simp_all add: execute_query_def execute_query_try_def execute_query_finally_def
      get_connection_def driver_defs no_faults_def)

lemma execute_query_fetchone_none:
  assumes "0 < avail w" and "db_execute (server w) q (params_or_empty params) (db w) = Inr (d, rs, ic)"
    and "rs = None \<or> rs = Some []"
  shows "execute_query no_faults q params False commit w
           = (Inr PNone, if commit \<or> ic then w\<lparr>db := d\<rparr> else w)"
  using assms
  by (cases rs) (simp_all add: execute_query_def execute_query_try_def execute_query_finally_def
      get_connection_def driver_defs no_faults_def)

lemma execute_query_fetchone_row:
  assumes "0 < avail w" and "db_execute (server w) q (params_or_empty params) (db w) = Inr (d, Some [r], ic)"
  shows "execute_query no_faults q params False commit w
           = (Inr (if r \<noteq> PNone \<and> \<not> is_tuple r then PTuple [r] else r),
              if commit \<or> ic then w\<lparr>db := d\<rparr> else w)"
  using assms
  by (simp add: execute_query_def execute_query_try_def execute_query_finally_def
      get_connection_def driver_defs no_faults_def)

text \<open>
  With two or more rows in the result, \<^verbatim>\<open>fetchone\<close> leaves rows unread, \<^verbatim>\<open>cursor.close()\<close>
  raises inside \<^verbatim>\<open>finally\<close>, and \<^verbatim>\<open>conn.close()\<close> is never reached.
\<close>

lemma execute_query_fetchone_unread:
  assumes "0 < avail w"
    and "db_execute (server w) q (params_or_empty params) (db w) = Inr (d, Some (r # r' # rest), ic)"
  shows "execute_query no_faults q params False commit w
           = (Inl unread_result,
              (if commit \<or> ic then w\<lparr>db := d\<rparr> else w)\<lparr>avail := avail w - 1\<rparr>)"
  using assms
  by (simp add: execute_query_def execute_query_try_def execute_query_finally_def
      get_connection_def driver_defs no_faults_def)

lemma db_execute_users:
  "db_execute srv sql_users [] (db two_users_world)
     = Inr (db two_users_world,
            Some [PTuple [PStr ''u1'', PStr ''a@b.com'', PStr ''pw1''],
                  PTuple [PStr ''u2'', PStr ''c@d.com'', PStr ''pw2'']],
            False)"
  by (simp add: db_execute_def parse_sql_simps run_stmt_def two_users_world_def user_row_def
      is_ddl_def)

text \<open>
  The run behind C1, C6 and C7: \<^verbatim>\<open>execute_query("SELECT UID, EMAIL, PASSWORD FROM USERS")\<close>
  with the default \<^verbatim>\<open>fetchall=False\<close> on a table of two users.
\<close>

lemma execute_query_users_fetchone:
  "execute_query no_faults sql_users None False False two_users_world
     = (Inl unread_result, two_users_world\<lparr>avail := 3\<rparr>)"
proof -
  have a: "0 < avail two_users_world"
    by (simp add: two_users_world_def)
  have d: "db_execute (server two_users_world) sql_users (params_or_empty None)
      (db two_users_world)
      = Inr (db two_users_world,
            Some (PTuple [PStr ''u1'', PStr ''a@b.com'', PStr ''pw1'']
                  # PTuple [PStr ''u2'', PStr ''c@d.com'', PStr ''pw2''] # []),
            False)"
    by (simp add: db_execute_users params_or_empty_def)
  from execute_query_fetchone_unread [OF a d, of False]
  show ?thesis
    by (simp add: two_users_world_def)
qed

text \<open>The log and the handlers leave the database and the pool alone.\<close>

lemma logging_simps:
  "db (logging l fmt a w) = db w"
  "avail (logging l fmt a w) = avail w"
  "server (logging l fmt a w) = server w"
  "logged (logging l fmt a w) = logged w @ [(l, fmt, a)]"
  by (simp_all add: logging_def)

lemma execute_query_except_simps:
  "db (execute_query_except e w) = db w"
  "avail (execute_query_except e w) = avail w"
  "server (execute_query_except e w) = server w"
  by (simp_all add: execute_query_except_def logging_simps split: exn.split)

text \<open>A statement that the server refuses: the error is logged, \<^verbatim>\<open>None\<close> is returned.\<close>

lemma execute_query_stmt_fails:
  assumes "0 < avail w" and "db_execute (server w) q (params_or_empty params) (db w) = Inl e"
  shows "execute_query no_faults q params fetchall commit w = (Inr PNone, execute_query_except e w)"
  using assms
  by (simp add: execute_query_def execute_query_try_def execute_query_finally_def
      get_connection_def driver_defs no_faults_def execute_query_except_def logging_def
      split: exn.split)

lemma execute_query_db_down:
  "execute_query db_down q params fetchall commit w
     = (Inr PNone,
        logging ERROR ''MySQL error occurred: %s''
          (AExn (MySQLError ''2003: Cannot connect to MySQL server''))
          (logging ERROR ''Failed to get a connection from the pool: %s''
             (AExn (MySQLError ''2003: Cannot connect to MySQL server'')) w))"
proof -
  have "get_connection db_down w
     = (Inl (MySQLError ''2003: Cannot connect to MySQL server''),
        logging ERROR ''Failed to get a connection from the pool: %s''
             (AExn (MySQLError ''2003: Cannot connect to MySQL server'')) w)"
    by (simp add: get_connection_def pool_get_connection_def db_down_def)
  from execute_query_get_connection_fails [OF this] show ?thesis
    by (simp add: execute_query_except_def)
qed



lemma execute_query_no_result_set_avail:
  assumes nrs: "\<And>d' rs ic. db_execute (server w) q (params_or_empty params) (db w) = Inr (d', rs, ic)
      \<Longrightarrow> rs = None"
    and cl: "env OpCursorClose = None" "env OpConnClose = None"
  shows "avail (snd (execute_query env q params False commit w)) = avail w"
proof (cases "db_execute (server w) q (params_or_empty params) (db w)")
  case (Inl e)
  then show ?thesis using cl
    by (simp add: execute_query_def execute_query_try_def execute_query_finally_def
        get_connection_def driver_defs execute_query_except_simps logging_simps
        split: option.split exn.split)
next
  case (Inr p)
  obtain d' rs ic where p: "p = (d', rs, ic)" by (cases p)
  with Inr nrs have "rs = None" by simp
  with Inr p show ?thesis using cl
    by (simp add: execute_query_def execute_query_try_def execute_query_finally_def
        get_connection_def driver_defs execute_query_except_simps logging_simps
        split: option.split exn.split)
qed

lemma case_result_returns:
  assumes "fst x = Inr r"
  shows "(case x of (Inl e, w1) \<Rightarrow> f e w1 | (Inr r, w1) \<Rightarrow> g r w1) = g r (snd x)"
  using assms by (cases x) auto






section \<open>Properties of the helpers on \<^verbatim>\<open>USERS\<close>\<close>

text \<open>What the server answers to the three statements on \<^verbatim>\<open>USERS\<close>.\<close>

lemma db_execute_user_exists:
  "db_execute srv sql_user_exists [uid] d =
     (case users d of None \<Rightarrow> Inl (no_table ''USERS'')
      | Some t \<Rightarrow>
          Inr (d, Some (map (\<lambda>r. PTuple [PInt 1]) (filter (\<lambda>r. fst r = uid) t)), False))"
  by (simp add: db_execute_def parse_sql_simps run_stmt_def is_ddl_def split: option.split)

lemma db_execute_user_password:
  "db_execute srv sql_user_password [uid] d =
     (case users d of None \<Rightarrow> Inl (no_table ''USERS'')
      | Some t \<Rightarrow>
          Inr (d, Some (map (\<lambda>r. PTuple [PStr (snd (snd r))]) (filter (\<lambda>r. fst r = uid) t)),
               False))"
  by (simp add: db_execute_def parse_sql_simps run_stmt_def is_ddl_def split: option.split)

lemma db_execute_insert_user:
  assumes "users d = Some t" and "fits [uid, email, pas]" and "uid \<notin> fst ` set t"
  shows "db_execute srv sql_insert_user [uid, email, pas] d
           = Inr (d\<lparr>users := Some (t @ [(uid, email, pas)])\<rparr>, None, False)"
  using assms by (simp add: db_execute_def parse_sql_simps run_stmt_def is_ddl_def)

text \<open>Under a primary key at most one row has a given \<^verbatim>\<open>UID\<close>.\<close>

lemma filter_fst_distinct:
  "distinct (map fst t) \<Longrightarrow>
     filter (\<lambda>r. fst r = k) t = (case map_of t k of None \<Rightarrow> [] | Some v \<Rightarrow> [(k, v)])"
proof (induction t)
  case Nil
  then show ?case by simp
next
  case (Cons a t)
  obtain k' v' where a: "a = (k', v')" by (cases a)
  show ?case
  proof (cases "k' = k")
    case True
    with Cons.prems a have "k \<notin> fst ` set t" by auto
    then have "filter (\<lambda>r. fst r = k) t = []"
      by (auto simp: filter_empty_conv)
    with True a show ?thesis by simp
  next
    case False
    with Cons a show ?thesis by simp
  qed
qed

text \<open>
  The three helpers on a pool with a free connection, when the driver raises nothing
  of its own accord.
\<close>

lemma check_if_user_exists_no_table:
  assumes "users (db w) = None" and "0 < avail w"
  shows "fst (check_if_user_exists no_faults uid w) = Inr (PBool False)"
proof -
  let ?w = "logging DEBUG ''Checking if user exists with UID: %s'' (AStr uid) w"
  have a: "0 < avail ?w"
    using assms(2) by (simp add: logging_simps)
  have d: "db_execute (server ?w) sql_user_exists (params_or_empty (Some [uid])) (db ?w)
      = Inl (no_table ''USERS'')"
    using assms(1) by (simp add: db_execute_user_exists params_or_empty_def logging_simps)
  from execute_query_stmt_fails [OF a d]
  have "fst (execute_query no_faults sql_user_exists (Some [uid]) True False ?w) = Inr PNone"
    by simp
  then show ?thesis
    by (simp add: check_if_user_exists_def case_result_returns)
qed

lemma check_if_user_exists_table:
  assumes "users (db w) = Some t" and "0 < avail w"
  shows "check_if_user_exists no_faults uid w
           = (Inr (PBool (filter (\<lambda>r. fst r = uid) t \<noteq> [])),
              logging DEBUG ''Result: %s''
                (AVal (PList (map (\<lambda>r. PTuple [PInt 1]) (filter (\<lambda>r. fst r = uid) t))))
                (logging DEBUG ''Checking if user exists with UID: %s'' (AStr uid) w))"
proof -
  let ?w = "logging DEBUG ''Checking if user exists with UID: %s'' (AStr uid) w"
  have a: "0 < avail ?w"
    using assms(2) by (simp add: logging_simps)
  have d: "db_execute (server ?w) sql_user_exists (params_or_empty (Some [uid])) (db ?w)
      = Inr (db ?w, Some (map (\<lambda>r. PTuple [PInt 1]) (filter (\<lambda>r. fst r = uid) t)), False)"
    using assms(1) by (simp add: db_execute_user_exists params_or_empty_def logging_simps)
  from execute_query_fetchall_ok [OF a d]
  have "execute_query no_faults sql_user_exists (Some [uid]) True False ?w
      = (Inr (PList (map (\<lambda>r. PTuple [PInt 1]) (filter (\<lambda>r. fst r = uid) t))), ?w)"
    by simp
  then show ?thesis
    by (simp add: check_if_user_exists_def)
qed

lemma check_user_credential_table:
  assumes "users (db w) = Some t" and "distinct (map fst t)" and "0 < avail w"
  shows "check_user_credential no_faults uid pas w
           = (case map_of t uid of
                None \<Rightarrow> Inr PNone
              | Some r \<Rightarrow> Inr (PBool (snd r = pas)), w)"
proof (cases "map_of t uid")
  case None
  with assms(2) have "filter (\<lambda>r. fst r = uid) t = []"
    by (simp add: filter_fst_distinct)
  with assms(1) have d: "db_execute (server w) sql_user_password (params_or_empty (Some [uid]))
      (db w) = Inr (db w, Some [], False)"
    by (simp add: db_execute_user_password params_or_empty_def)
  from execute_query_fetchone_none [OF assms(3) d]
  have "execute_query no_faults sql_user_password (Some [uid]) False False w = (Inr PNone, w)"
    by simp
  then show ?thesis using None
    by (simp add: check_user_credential_def)
next
  case (Some r)
  with assms(2) have "filter (\<lambda>r. fst r = uid) t = [(uid, r)]"
    by (simp add: filter_fst_distinct)
  with assms(1) have d: "db_execute (server w) sql_user_password (params_or_empty (Some [uid]))
      (db w) = Inr (db w, Some [PTuple [PStr (snd r)]], False)"
    by (simp add: db_execute_user_password params_or_empty_def)
  from execute_query_fetchone_row [OF assms(3) d]
  have "execute_query no_faults sql_user_password (Some [uid]) False False w
      = (Inr (PTuple [PStr (snd r)]), w)"
    by simp
  then show ?thesis using Some
    by (simp add: check_user_credential_def)
qed

lemma insert_into_user_ok:
  assumes "users (db w) = Some t" and "fits [uid, email, pas]" and "uid \<notin> fst ` set t"
    and "0 < avail w"
  shows "insert_into_user no_faults uid email pas w
           = (Inr PNone,
              logging INFO ''User added: %s'' (AStr uid)
                (w\<lparr>db := (db w)\<lparr>users := Some (t @ [(uid, email, pas)])\<rparr>\<rparr>))"
proof -
  from assms(1-3) have d: "db_execute (server w) sql_insert_user
      (params_or_empty (Some [uid, email, pas])) (db w)
      = Inr ((db w)\<lparr>users := Some (t @ [(uid, email, pas)])\<rparr>, None, False)"
    by (simp add: db_execute_insert_user params_or_empty_def)
  from execute_query_fetchone_none [OF assms(4) d]
  have "execute_query no_faults sql_insert_user (Some [uid, email, pas]) False True w
      = (Inr PNone, w\<lparr>db := (db w)\<lparr>users := Some (t @ [(uid, email, pas)])\<rparr>\<rparr>)"
    by simp
  then show ?thesis
    by (simp add: insert_into_user_def)
qed

section \<open>Properties of \<^verbatim>\<open>init_db\<close>\<close>









section \<open>Properties of the pair helpers\<close>

lemma db_execute_selects:
  "db_execute srv sql_traped_of_owner [uid] d =
     (case traped d of None \<Rightarrow> Inl (no_table ''TRAPED'')
      | Some t \<Rightarrow> Inr (d, Some (map row4 (filter (\<lambda>r. fst r = uid) t)), False))"
  "db_execute srv sql_count_traped_of_owner [uid] d =
     (case traped d of None \<Rightarrow> Inl (no_table ''TRAPED'')
      | Some t \<Rightarrow> Inr (d, Some [count_row (filter (\<lambda>r. fst r = uid) t)], False))"
  "db_execute srv sql_traped [] d =
     (case traped d of None \<Rightarrow> Inl (no_table ''TRAPED'')
      | Some t \<Rightarrow> Inr (d, Some (map row4 t), False))"
  "db_execute srv sql_count_traped [] d =
     (case traped d of None \<Rightarrow> Inl (no_table ''TRAPED'')
      | Some t \<Rightarrow> Inr (d, Some [count_row t], False))"
  "db_execute srv sql_users [] d =
     (case users d of None \<Rightarrow> Inl (no_table ''USERS'')
      | Some t \<Rightarrow> Inr (d, Some (map user_row t), False))"
  "db_execute srv sql_count_users [] d =
     (case users d of None \<Rightarrow> Inl (no_table ''USERS'')
      | Some t \<Rightarrow> Inr (d, Some [count_row t], False))"
  "db_execute srv sql_message [] d =
     (case message d of None \<Rightarrow> Inl (no_table ''MESSAGE'')
      | Some t \<Rightarrow> Inr (d, Some (map row4 t), False))"
  "db_execute srv sql_count_message [] d =
     (case message d of None \<Rightarrow> Inl (no_table ''MESSAGE'')
      | Some t \<Rightarrow> Inr (d, Some [count_row t], False))"
  by (simp_all add: db_execute_def parse_sql_simps run_stmt_def is_ddl_def split: option.split)

text \<open>
  A detail query and a count query that the server answers, on a run without driver
  fault: the rows come back as a list, the count as the tuple's only element, and the
  world is as before.
\<close>

lemma execute_query_detail_and_count:
  assumes "0 < avail w"
  shows "db_execute (server w) q (params_or_empty params) (db w) = Inr (db w, Some rs, False)
         \<Longrightarrow> execute_query no_faults q params True False w = (Inr (PList rs), w)"
    and "db_execute (server w) q (params_or_empty params) (db w)
           = Inr (db w, Some [count_row t], False)
         \<Longrightarrow> execute_query no_faults q params False False w
           = (Inr (PTuple [PInt (int (length t))]), w)"
proof -
  assume d: "db_execute (server w) q (params_or_empty params) (db w) = Inr (db w, Some rs, False)"
  from execute_query_fetchall_ok [OF assms d]
  show "execute_query no_faults q params True False w = (Inr (PList rs), w)"
    by simp
next
  assume d: "db_execute (server w) q (params_or_empty params) (db w)
           = Inr (db w, Some [count_row t], False)"
  from execute_query_fetchone_row [OF assms d]
  show "execute_query no_faults q params False False w
           = (Inr (PTuple [PInt (int (length t))]), w)"
    by (simp add: count_row_def)
qed

lemma pair_helpers_ok:
  assumes "0 < avail w"
  shows "traped (db w) = Some t \<Longrightarrow>
           get_traped_data_for_owner no_faults no_faults uid w
             = (Inr (PList [PList (map row4 (filter (\<lambda>r. fst r = uid) t)),
                            PInt (int (length (filter (\<lambda>r. fst r = uid) t)))]), w)"
    and "traped (db w) = Some t \<Longrightarrow>
           get_traped_data no_faults no_faults w
             = (Inr (PList [PList (map row4 t), PInt (int (length t))]), w)"
    and "users (db w) = Some tu \<Longrightarrow>
           get_user_data no_faults no_faults w
             = (Inr (PList [PList (map user_row tu), PInt (int (length tu))]), w)"
    and "message (db w) = Some t \<Longrightarrow>
           get_feedback_data no_faults no_faults w
             = (Inr (PList [PList (map row4 t), PInt (int (length t))]), w)"
  using assms
  by (simp_all add: get_traped_data_for_owner_def get_traped_data_def get_user_data_def
      get_feedback_data_def execute_query_detail_and_count db_execute_selects
      params_or_empty_def count_or_zero_def)


section \<open>Claims\<close>

text \<open>
  C1. The claim: for every statement, parameter list, fetch mode and commit flag,
  \<^verbatim>\<open>execute_query\<close> lets no database-level or unexpected error reach its caller, but
  logs it and returns \<^verbatim>\<open>None\<close>.

  The code does so for exceptions raised inside the \<^verbatim>\<open>try\<close> body only. The calls
  \<^verbatim>\<open>cursor.close()\<close> and \<^verbatim>\<open>conn.close()\<close> of the \<^verbatim>\<open>finally\<close> clause are outside every
  handler. On the statement \<^verbatim>\<open>SELECT UID, EMAIL, PASSWORD FROM USERS\<close> with
  \<^verbatim>\<open>fetchall=False\<close> and two users in the table, \<^verbatim>\<open>fetchone\<close> leaves a row unread,
  \<^verbatim>\<open>cursor.close()\<close> raises \<^verbatim>\<open>InternalError("Unread result found")\<close>, and that error
  reaches the caller; nothing is logged.
\<close>

theorem execute_query_close_error_reaches_caller:
  "fst (execute_query no_faults sql_users None False False two_users_world)
     = Inl (MySQLError ''Unread result found'')
   \<and> logged (snd (execute_query no_faults sql_users None False False two_users_world)) = []"
  by (simp add: execute_query_users_fetchone unread_result_def) (simp add: two_users_world_def)

text \<open>
  C6. The claim: after a successful execution of the statement, \<^verbatim>\<open>execute_query\<close>
  returns every row in order in mode "all", in mode "one" the first row as a tuple
  (or \<^verbatim>\<open>None\<close> when no row matched), and nothing in mode "none".

  The code has the flag \<^verbatim>\<open>fetchall\<close> for the modes "all" and "one"; a caller that wants
  nothing runs a statement without result set in mode "one" and gets \<^verbatim>\<open>None\<close>. Mode
  "all", mode "one" on at most one row, and a statement without result set behave as
  claimed (lemmas \<open>execute_query_fetchall_ok\<close>, \<open>execute_query_fetchone_row\<close>,
  \<open>execute_query_fetchone_none\<close>).
  On a result of two rows, however, mode "one" does not return the first row: the server
  executes the statement and delivers the rows of \<open>u1\<close> and \<open>u2\<close>, and the call ends
  with the exception of \<^verbatim>\<open>cursor.close()\<close> instead of the row of \<open>u1\<close>.
\<close>

theorem execute_query_fetchone_loses_first_row:
  "db_execute (server two_users_world) sql_users (params_or_empty None) (db two_users_world)
     = Inr (db two_users_world,
            Some [PTuple [PStr ''u1'', PStr ''a@b.com'', PStr ''pw1''],
                  PTuple [PStr ''u2'', PStr ''c@d.com'', PStr ''pw2'']],
            False)
   \<and> fst (execute_query no_faults sql_users None False False two_users_world)
       \<noteq> Inr (PTuple [PStr ''u1'', PStr ''a@b.com'', PStr ''pw1''])
   \<and> fst (execute_query no_faults sql_users None False False two_users_world)
       = Inl unread_result"
  by (simp add: execute_query_users_fetchone db_execute_users params_or_empty_def)

text \<open>
  C7. The claim: on every exit path of \<^verbatim>\<open>execute_query\<close> the cursor and the connection
  that were acquired are released, so a call leaves the pool's available connections
  as they were.

  In the \<^verbatim>\<open>finally\<close> clause \<^verbatim>\<open>conn.close()\<close> comes after \<^verbatim>\<open>cursor.close()\<close> with nothing
  to protect it. In the same run as above \<^verbatim>\<open>cursor.close()\<close> raises, \<^verbatim>\<open>conn.close()\<close> is
  skipped, and the pool that had four connections to give has three.
\<close>

theorem execute_query_leaks_connection:
  "avail two_users_world = 4
   \<and> avail (snd (execute_query no_faults sql_users None False False two_users_world)) = 3"
  by (simp add: execute_query_users_fetchone) (simp add: two_users_world_def)




text \<open>
  C9. The claim: when the underlying queries fail, each pair helper returns \<^verbatim>\<open>[None, 0]\<close>,
  and this cannot be told from a successfully queried result.

  The first half holds. The second does not: a detail query that succeeds returns a
  list, never \<^verbatim>\<open>None\<close>. On a \<^verbatim>\<open>TRAPED\<close> table without rows \<^verbatim>\<open>get_traped_data\<close> returns
  \<^verbatim>\<open>[[], 0]\<close> when the queries succeed and \<^verbatim>\<open>[None, 0]\<close> when the server cannot be
  reached, and the two differ:
\<close>

theorem get_traped_data_failure_differs_from_empty:
  "fst (get_traped_data no_faults no_faults two_users_world) = Inr (PList [PList [], PInt 0])
   \<and> fst (get_traped_data db_down db_down two_users_world) = Inr (PList [PNone, PInt 0])
   \<and> fst (get_traped_data no_faults no_faults two_users_world)
       \<noteq> fst (get_traped_data db_down db_down two_users_world)"
proof -
  have "0 < avail two_users_world" and "traped (db two_users_world) = Some []"
    by (simp_all add: two_users_world_def)
  then have "fst (get_traped_data no_faults no_faults two_users_world)
      = Inr (PList [PList [], PInt 0])"
    by (simp add: pair_helpers_ok)
  moreover have "fst (get_traped_data db_down db_down two_users_world)
      = Inr (PList [PNone, PInt 0])"
    by (simp add: get_traped_data_def execute_query_db_down count_or_zero_def)
  ultimately show ?thesis
    by simp
qed

text \<open>
  C9, amended. When both underlying queries fail (\<^verbatim>\<open>execute_query\<close> returns \<^verbatim>\<open>None\<close> for
  the detail and for the count), each of \<^verbatim>\<open>get_traped_data_for_owner\<close>,
  \<^verbatim>\<open>get_traped_data\<close>, \<^verbatim>\<open>get_user_data\<close> and \<^verbatim>\<open>get_feedback_data\<close> returns \<^verbatim>\<open>[None, 0]\<close>.
  When the queries succeed (run without driver fault, table present) the helper
  returns the list of the rows and their number: with no matching row that is
  \<^verbatim>\<open>[[], 0]\<close>, which has the count of the failed result but not its detail.
\<close>

theorem pair_helpers_failure_and_success:
  "(execute_query env1 sql_traped_of_owner (Some [uid]) True False w = (Inr PNone, w1)
      \<and> execute_query env2 sql_count_traped_of_owner (Some [uid]) False False w1 = (Inr PNone, w2)
      \<longrightarrow> get_traped_data_for_owner env1 env2 uid w = (Inr (PList [PNone, PInt 0]), w2))
   \<and> (execute_query env1 sql_traped None True False w = (Inr PNone, w1)
      \<and> execute_query env2 sql_count_traped None False False w1 = (Inr PNone, w2)
      \<longrightarrow> get_traped_data env1 env2 w = (Inr (PList [PNone, PInt 0]), w2))
   \<and> (execute_query env1 sql_users None True False w = (Inr PNone, w1)
      \<and> execute_query env2 sql_count_users None False False w1 = (Inr PNone, w2)
      \<longrightarrow> get_user_data env1 env2 w = (Inr (PList [PNone, PInt 0]), w2))
   \<and> (execute_query env1 sql_message None True False w = (Inr PNone, w1)
      \<and> execute_query env2 sql_count_message None False False w1 = (Inr PNone, w2)
      \<longrightarrow> get_feedback_data env1 env2 w = (Inr (PList [PNone, PInt 0]), w2))
   \<and> (0 < avail v \<and> traped (db v) = Some t
      \<longrightarrow> get_traped_data_for_owner no_faults no_faults uid v
            = (Inr (PList [PList (map row4 (filter (\<lambda>r. fst r = uid) t)),
                           PInt (int (length (filter (\<lambda>r. fst r = uid) t)))]), v)
        \<and> get_traped_data no_faults no_faults v
            = (Inr (PList [PList (map row4 t), PInt (int (length t))]), v))
   \<and> (0 < avail v \<and> users (db v) = Some tu
      \<longrightarrow> get_user_data no_faults no_faults v
            = (Inr (PList [PList (map user_row tu), PInt (int (length tu))]), v))
   \<and> (0 < avail v \<and> message (db v) = Some tm
      \<longrightarrow> get_feedback_data no_faults no_faults v
            = (Inr (PList [PList (map row4 tm), PInt (int (length tm))]), v))"
proof -
  have a: "(execute_query env1 sql_traped_of_owner (Some [uid]) True False w = (Inr PNone, w1)
      \<and> execute_query env2 sql_count_traped_of_owner (Some [uid]) False False w1 = (Inr PNone, w2)
      \<longrightarrow> get_traped_data_for_owner env1 env2 uid w = (Inr (PList [PNone, PInt 0]), w2))"
    by (simp add: get_traped_data_for_owner_def)
  have b: "(execute_query env1 sql_traped None True False w = (Inr PNone, w1)
      \<and> execute_query env2 sql_count_traped None False False w1 = (Inr PNone, w2)
      \<longrightarrow> get_traped_data env1 env2 w = (Inr (PList [PNone, PInt 0]), w2))"
    by (simp add: get_traped_data_def count_or_zero_def)
  have c: "(execute_query env1 sql_users None True False w = (Inr PNone, w1)
      \<and> execute_query env2 sql_count_users None False False w1 = (Inr PNone, w2)
      \<longrightarrow> get_user_data env1 env2 w = (Inr (PList [PNone, PInt 0]), w2))"
    by (simp add: get_user_data_def count_or_zero_def)
  have d: "(execute_query env1 sql_message None True False w = (Inr PNone, w1)
      \<and> execute_query env2 sql_count_message None False False w1 = (Inr PNone, w2)
      \<longrightarrow> get_feedback_data env1 env2 w = (Inr (PList [PNone, PInt 0]), w2))"
    by (simp add: get_feedback_data_def count_or_zero_def)
  from a b c d show ?thesis
    by (simp add: pair_helpers_ok)
qed

theorem pair_helpers_failure_and_success_witness:
  "fst (get_traped_data_for_owner db_down db_down ''u1'' two_users_world)
     = Inr (PList [PNone, PInt 0])
   \<and> fst (get_traped_data db_down db_down two_users_world) = Inr (PList [PNone, PInt 0])
   \<and> fst (get_user_data db_down db_down two_users_world) = Inr (PList [PNone, PInt 0])
   \<and> fst (get_feedback_data db_down db_down two_users_world) = Inr (PList [PNone, PInt 0])
   \<and> 0 < avail two_users_world
   \<and> traped (db two_users_world) = Some []
   \<and> users (db two_users_world)
       = Some [(''u1'', ''a@b.com'', ''pw1''), (''u2'', ''c@d.com'', ''pw2'')]
   \<and> message (db two_users_world) = Some []
   \<and> fst (get_traped_data_for_owner no_faults no_faults ''u1'' two_users_world)
       = Inr (PList [PList [], PInt 0])
   \<and> fst (get_traped_data no_faults no_faults two_users_world) = Inr (PList [PList [], PInt 0])
   \<and> fst (get_user_data no_faults no_faults two_users_world)
       = Inr (PList [PList [PTuple [PStr ''u1'', PStr ''a@b.com'', PStr ''pw1''],
                            PTuple [PStr ''u2'', PStr ''c@d.com'', PStr ''pw2'']],
                     PInt 2])
   \<and> fst (get_feedback_data no_faults no_faults two_users_world)
       = Inr (PList [PList [], PInt 0])"
proof -
  have h: "0 < avail two_users_world" "traped (db two_users_world) = Some []"
    "users (db two_users_world)
       = Some [(''u1'', ''a@b.com'', ''pw1''), (''u2'', ''c@d.com'', ''pw2'')]"
    "message (db two_users_world) = Some []"
    by (simp_all add: two_users_world_def)
  note th = pair_helpers_failure_and_success
    [where ?env1.0 = db_down and ?env2.0 = db_down and uid = "''u1''" and w = two_users_world
       and v = two_users_world and t = "[]" and tm = "[]"
       and tu = "[(''u1'', ''a@b.com'', ''pw1''), (''u2'', ''c@d.com'', ''pw2'')]"]
  from th have
    "fst (get_traped_data_for_owner db_down db_down ''u1'' two_users_world)
       = Inr (PList [PNone, PInt 0])"
    "fst (get_traped_data db_down db_down two_users_world) = Inr (PList [PNone, PInt 0])"
    "fst (get_user_data db_down db_down two_users_world) = Inr (PList [PNone, PInt 0])"
    "fst (get_feedback_data db_down db_down two_users_world) = Inr (PList [PNone, PInt 0])"
    by (simp_all add: execute_query_db_down)
  moreover from th h have
    "fst (get_traped_data_for_owner no_faults no_faults ''u1'' two_users_world)
       = Inr (PList [PList [], PInt 0])"
    "fst (get_traped_data no_faults no_faults two_users_world) = Inr (PList [PList [], PInt 0])"
    "fst (get_user_data no_faults no_faults two_users_world)
       = Inr (PList [PList [PTuple [PStr ''u1'', PStr ''a@b.com'', PStr ''pw1''],
                            PTuple [PStr ''u2'', PStr ''c@d.com'', PStr ''pw2'']],
                     PInt 2])"
    "fst (get_feedback_data no_faults no_faults two_users_world)
       = Inr (PList [PList [], PInt 0])"
    by (simp_all add: user_row_def)
  ultimately show ?thesis
    using h by simp
qed




text \<open>
  C5. On a run without driver fault, \<^verbatim>\<open>check_if_user_exists\<close> returns \<^verbatim>\<open>True\<close> exactly
  when at least one row of \<^verbatim>\<open>USERS\<close> has the given \<^verbatim>\<open>UID\<close>, for every id and every
  database (a missing table has no rows); in particular it returns \<^verbatim>\<open>False\<close> for an
  id that no row carries.
\<close>

theorem check_if_user_exists_iff_row:
  assumes "0 < avail w"
  shows "fst (check_if_user_exists no_faults uid w)
           = Inr (PBool (filter (\<lambda>r. fst r = uid) (users_rows (db w)) \<noteq> []))
       \<and> (uid \<notin> fst ` set (users_rows (db w))
            \<longrightarrow> fst (check_if_user_exists no_faults uid w) = Inr (PBool False))"
proof -
  have e: "fst (check_if_user_exists no_faults uid w)
           = Inr (PBool (filter (\<lambda>r. fst r = uid) (users_rows (db w)) \<noteq> []))"
  proof (cases "users (db w)")
    case None
    with assms show ?thesis
      by (simp add: check_if_user_exists_no_table users_rows_def)
  next
    case (Some t)
    with assms show ?thesis
      by (simp add: check_if_user_exists_table users_rows_def)
  qed
  have "filter (\<lambda>r. fst r = uid) (users_rows (db w)) = []"
    if "uid \<notin> fst ` set (users_rows (db w))"
    using that by (auto simp: filter_empty_conv)
  with e show ?thesis by simp
qed

theorem check_if_user_exists_iff_row_witness:
  "0 < avail two_users_world
   \<and> fst (check_if_user_exists no_faults ''u1'' two_users_world) = Inr (PBool True)
   \<and> ''u3'' \<notin> fst ` set (users_rows (db two_users_world))
   \<and> fst (check_if_user_exists no_faults ''u3'' two_users_world) = Inr (PBool False)"
proof -
  have a: "0 < avail two_users_world"
    by (simp add: two_users_world_def)
  have n: "''u3'' \<notin> fst ` set (users_rows (db two_users_world))"
    by (simp add: two_users_world_def users_rows_def)
  have r: "filter (\<lambda>r. fst r = ''u1'') (users_rows (db two_users_world)) \<noteq> []"
    by (simp add: two_users_world_def users_rows_def)
  from r check_if_user_exists_iff_row [OF a, of "''u1''"]
  have 1: "fst (check_if_user_exists no_faults ''u1'' two_users_world) = Inr (PBool True)"
    by simp
  from n check_if_user_exists_iff_row [OF a, of "''u3''"]
  have 3: "fst (check_if_user_exists no_faults ''u3'' two_users_world) = Inr (PBool False)"
    by blast
  from a n 1 3 show ?thesis
    by blast
qed

text \<open>
  C2. The claim: \<^verbatim>\<open>check_user_credential\<close> returns a boolean, true iff a row for the id
  exists and its password equals the supplied one.

  The function returns \<^verbatim>\<open>result and result[0] == pas\<close>. When no row has the id,
  \<^verbatim>\<open>result\<close> is \<^verbatim>\<open>None\<close> and the value returned is \<^verbatim>\<open>None\<close>, which is not a boolean:
\<close>

theorem check_user_credential_none_not_boolean:
  "fst (check_user_credential no_faults ''u3'' ''pw1'' two_users_world) = Inr PNone
   \<and> fst (check_user_credential no_faults ''u3'' ''pw1'' two_users_world) \<noteq> Inr (PBool False)
   \<and> fst (check_user_credential no_faults ''u3'' ''pw1'' two_users_world) \<noteq> Inr (PBool True)"
proof -
  have "users (db two_users_world)
      = Some [(''u1'', ''a@b.com'', ''pw1''), (''u2'', ''c@d.com'', ''pw2'')]"
    and "distinct (map fst [(''u1'', ''a@b.com'', ''pw1''), (''u2'', ''c@d.com'', ''pw2'')])"
    and "0 < avail two_users_world"
    by (simp_all add: two_users_world_def)
  from check_user_credential_table [OF this, of "''u3''" "''pw1''"]
  show ?thesis by simp
qed

text \<open>
  C2, amended. On a run without driver fault, over a \<^verbatim>\<open>USERS\<close> table with unique
  \<^verbatim>\<open>UID\<close>s, \<^verbatim>\<open>check_user_credential\<close> returns \<^verbatim>\<open>True\<close> when the row of the id holds the
  supplied password, \<^verbatim>\<open>False\<close> when it holds another one, and \<^verbatim>\<open>None\<close> when no row
  has the id; so the value is truthy iff a row for the id exists and its password
  equals the supplied one (plain equality of strings).
\<close>

theorem check_user_credential_value:
  assumes "users (db w) = Some t" and "distinct (map fst t)" and "0 < avail w"
  shows "fst (check_user_credential no_faults uid pas w)
           = (case map_of t uid of
                None \<Rightarrow> Inr PNone
              | Some r \<Rightarrow> Inr (PBool (snd r = pas)))
       \<and> (truthy (case fst (check_user_credential no_faults uid pas w) of
                     Inl e \<Rightarrow> PNone | Inr v \<Rightarrow> v)
            \<longleftrightarrow> (\<exists>email. (uid, email, pas) \<in> set t))"
proof -
  have v: "fst (check_user_credential no_faults uid pas w)
           = (case map_of t uid of
                None \<Rightarrow> Inr PNone
              | Some r \<Rightarrow> Inr (PBool (snd r = pas)))"
    using assms by (simp add: check_user_credential_table)
  have "(\<exists>email. (uid, email, pas) \<in> set t) \<longleftrightarrow> (\<exists>r. map_of t uid = Some r \<and> snd r = pas)"
    using assms(2) by auto
  with v show ?thesis
    by (auto split: option.splits)
qed

theorem check_user_credential_value_witness:
  "users (db two_users_world)
      = Some [(''u1'', ''a@b.com'', ''pw1''), (''u2'', ''c@d.com'', ''pw2'')]
   \<and> distinct (map fst [(''u1'', ''a@b.com'', ''pw1''), (''u2'', ''c@d.com'', ''pw2'')])
   \<and> 0 < avail two_users_world
   \<and> fst (check_user_credential no_faults ''u1'' ''pw1'' two_users_world) = Inr (PBool True)
   \<and> fst (check_user_credential no_faults ''u1'' ''pw2'' two_users_world) = Inr (PBool False)"
proof -
  have h: "users (db two_users_world)
      = Some [(''u1'', ''a@b.com'', ''pw1''), (''u2'', ''c@d.com'', ''pw2'')]"
    "distinct (map fst [(''u1'', ''a@b.com'', ''pw1''), (''u2'', ''c@d.com'', ''pw2'')])"
    "0 < avail two_users_world"
    by (simp_all add: two_users_world_def)
  show ?thesis
    using h check_user_credential_value [OF h, of "''u1''" "''pw1''"]
      check_user_credential_value [OF h, of "''u1''" "''pw2''"]
    by simp
qed

text \<open>
  C4. Let \<open>(uid, email, pas)\<close> be valid (the values fit their columns and no row has
  \<open>uid\<close> yet) and let \<^verbatim>\<open>insert_into_user\<close> run on a database where the insert succeeds
  (the table exists, a connection is free, the driver raises nothing). Then the row is
  in the table, a subsequent \<^verbatim>\<open>check_if_user_exists(uid)\<close> returns \<^verbatim>\<open>True\<close>, a subsequent
  \<^verbatim>\<open>check_user_credential(uid, pas)\<close> returns \<^verbatim>\<open>True\<close>, and for every \<open>wrong \<noteq> pas\<close> a
  subsequent \<^verbatim>\<open>check_user_credential(uid, wrong)\<close> returns \<^verbatim>\<open>False\<close>. The calls are chained:
  each starts in the world the previous one left.
\<close>

theorem insert_then_exists_and_credential:
  assumes "users (db w) = Some t" and "distinct (map fst t)" and "uid \<notin> fst ` set t"
    and "fits [uid, email, pas]" and "0 < avail w"
    and "w1 = snd (insert_into_user no_faults uid email pas w)"
    and "w2 = snd (check_if_user_exists no_faults uid w1)"
    and "w3 = snd (check_user_credential no_faults uid pas w2)"
  shows "users (db w1) = Some (t @ [(uid, email, pas)])
       \<and> fst (check_if_user_exists no_faults uid w1) = Inr (PBool True)
       \<and> fst (check_user_credential no_faults uid pas w2) = Inr (PBool True)
       \<and> (wrong \<noteq> pas
            \<longrightarrow> fst (check_user_credential no_faults uid wrong w3) = Inr (PBool False))"
proof -
  let ?t = "t @ [(uid, email, pas)]"
  have w1: "w1 = logging INFO ''User added: %s'' (AStr uid) (w\<lparr>db := (db w)\<lparr>users := Some ?t\<rparr>\<rparr>)"
    using assms(1,3,4,5,6) by (simp add: insert_into_user_ok)
  have u1: "users (db w1) = Some ?t" and a1: "0 < avail w1"
    using w1 assms(5) by (simp_all add: logging_simps)
  have d: "distinct (map fst ?t)"
    using assms(2,3) by simp
  have m: "map_of ?t uid = Some (email, pas)"
  proof -
    from assms(3) have "map_of t uid = None"
      by (simp add: map_of_eq_None_iff)
    then show ?thesis
      by (simp add: map_add_def)
  qed
  have f: "filter (\<lambda>r. fst r = uid) ?t \<noteq> []"
    by simp
  have e1: "fst (check_if_user_exists no_faults uid w1) = Inr (PBool True)"
    using f by (simp add: check_if_user_exists_table [OF u1 a1])
  have u2: "users (db w2) = Some ?t" and a2: "0 < avail w2"
    using assms(7) u1 a1 by (simp_all add: check_if_user_exists_table [OF u1 a1] logging_simps)
  have c2: "check_user_credential no_faults uid pas w2 = (Inr (PBool True), w2)"
    using m by (simp add: check_user_credential_table [OF u2 d a2])
  then have w3: "w3 = w2"
    using assms(8) by simp
  have c3: "fst (check_user_credential no_faults uid wrong w3) = Inr (PBool (pas = wrong))"
    using m by (simp add: w3 check_user_credential_table [OF u2 d a2])
  from u1 e1 c2 c3 show ?thesis
    by auto
qed

theorem insert_then_exists_and_credential_witness:
  "users (db two_users_world)
      = Some [(''u1'', ''a@b.com'', ''pw1''), (''u2'', ''c@d.com'', ''pw2'')]
   \<and> distinct (map fst [(''u1'', ''a@b.com'', ''pw1''), (''u2'', ''c@d.com'', ''pw2'')])
   \<and> ''u3'' \<notin> fst ` set [(''u1'', ''a@b.com'', ''pw1''), (''u2'', ''c@d.com'', ''pw2'')]
   \<and> fits [''u3'', ''e@f.com'', ''pw3'']
   \<and> 0 < avail two_users_world
   \<and> ''wrong'' \<noteq> ''pw3''
   \<and> fst (check_if_user_exists no_faults ''u3''
          (snd (insert_into_user no_faults ''u3'' ''e@f.com'' ''pw3'' two_users_world)))
       = Inr (PBool True)
   \<and> fst (check_user_credential no_faults ''u3'' ''pw3''
          (snd (check_if_user_exists no_faults ''u3''
             (snd (insert_into_user no_faults ''u3'' ''e@f.com'' ''pw3'' two_users_world)))))
       = Inr (PBool True)
   \<and> fst (check_user_credential no_faults ''u3'' ''wrong''
          (snd (check_user_credential no_faults ''u3'' ''pw3''
             (snd (check_if_user_exists no_faults ''u3''
                (snd (insert_into_user no_faults ''u3'' ''e@f.com'' ''pw3'' two_users_world)))))))
       = Inr (PBool False)"
proof -
  have h: "users (db two_users_world)
      = Some [(''u1'', ''a@b.com'', ''pw1''), (''u2'', ''c@d.com'', ''pw2'')]"
    "distinct (map fst [(''u1'', ''a@b.com'', ''pw1''), (''u2'', ''c@d.com'', ''pw2'')])"
    "''u3'' \<notin> fst ` set [(''u1'', ''a@b.com'', ''pw1''), (''u2'', ''c@d.com'', ''pw2'')]"
    "fits [''u3'', ''e@f.com'', ''pw3'']"
    "0 < avail two_users_world"
    by (simp_all add: two_users_world_def fits_def)
  have n: "''wrong'' \<noteq> ''pw3''"
    by simp
  from insert_then_exists_and_credential [OF h refl refl refl, of "''wrong''"] h n
  show ?thesis
    by blast
qed





end
